theory Spec2Isabelle
  imports Main "HOL-Library.Word"
begin

unbundle bit_operations_syntax

section \<open>Bytes, views and exceptions\<close>

text \<open>
  The tree of \<^verbatim>\<open>src/storage/bplus-tree.hpp\<close> stores byte strings in pages. A page id
  (\<^verbatim>\<open>pgid_t\<close>) is four bytes wide, as the layout comment of the header says ("4 4 Root page
  ID"). The header \<^verbatim>\<open>page-manager.hpp\<close> that declares \<^verbatim>\<open>pgoff_t\<close> is not part of
  the sources at hand; an in-page offset is taken to be two bytes wide. Integers are
  copied to memory with \<^verbatim>\<open>memcpy\<close>, least significant byte first.
\<close>

type_synonym byte = "8 word"
type_synonym pgid_t = "32 word"
type_synonym pgoff_t = "16 word"

text \<open>
  What can go wrong in the C++: \<^verbatim>\<open>std::out_of_range\<close> and \<^verbatim>\<open>std::invalid_argument\<close>
  are thrown by \<^verbatim>\<open>substr\<close> and \<^verbatim>\<open>std::stoi\<close>; \<open>Undefined\<close> stands for a read or write
  outside the memory a pointer designates; \<open>PageFault\<close> for a fault of the page manager
  (a page or slot that does not exist, a write that does not fit); \<open>AssertionFailed\<close> for
  a failed \<^verbatim>\<open>assert\<close>. \<open>OutOfFuel\<close> is not an event of the program: the two loops
  that have no evident bound take a number of iterations that they may run, and report
  when it is used up.
\<close>

datatype error = OutOfRange | InvalidArgument | Undefined | PageFault | AssertionFailed | OutOfFuel

definition bindE :: "error + 'a \<Rightarrow> ('a \<Rightarrow> error + 'b) \<Rightarrow> error + 'b" where
  "bindE m f = (case m of Inl e \<Rightarrow> Inl e | Inr x \<Rightarrow> f x)"

text \<open>
  A \<^verbatim>\<open>std::string_view\<close> is a pointer and a length. \<open>sv_data\<close> is the memory that can
  be read from the pointer onwards, which may be longer than the view; \<open>sv_size\<close> is the
  length of the view.
\<close>

record string_view =
  sv_data :: "byte list"
  sv_size :: nat

definition view_of :: "byte list \<Rightarrow> string_view" where
  "view_of bs = \<lparr>sv_data = bs, sv_size = length bs\<rparr>"

text \<open>The bytes of a view, as \<^verbatim>\<open>std::string(view)\<close> or a comparison reads them.\<close>

definition sv_read :: "string_view \<Rightarrow> error + byte list" where
  "sv_read v = (if sv_size v \<le> length (sv_data v) then Inr (take (sv_size v) (sv_data v))
                else Inl Undefined)"

text \<open>\<^verbatim>\<open>view.substr(pos, count)\<close>; \<open>None\<close> is the default count \<^verbatim>\<open>npos\<close>.\<close>

definition substr :: "string_view \<Rightarrow> nat \<Rightarrow> nat option \<Rightarrow> error + string_view" where
  "substr v pos cnt =
     (if pos > sv_size v then Inl OutOfRange
      else Inr \<lparr>sv_data = drop pos (sv_data v),
                sv_size = (case cnt of None \<Rightarrow> sv_size v - pos
                           | Some n \<Rightarrow> min n (sv_size v - pos))\<rparr>)"

text \<open>
  \<^verbatim>\<open>memcpy(dst + off, src, n)\<close>: \<open>dst\<close> is the memory at the destination pointer, \<open>src\<close>
  the memory readable at the source pointer.
\<close>

definition memcpy :: "byte list \<Rightarrow> nat \<Rightarrow> byte list \<Rightarrow> nat \<Rightarrow> error + byte list" where
  "memcpy dst off src n =
     (if n \<le> length src \<and> off + n \<le> length dst
      then Inr (take off dst @ take n src @ drop (off + n) dst)
      else Inl Undefined)"

definition le_bytes :: "nat \<Rightarrow> 'a::len word \<Rightarrow> byte list" where
  "le_bytes n w = map (\<lambda>i. ucast (drop_bit (8 * i) w)) [0..<n]"

fun le_word :: "byte list \<Rightarrow> 'a::len word" where
  "le_word [] = 0"
| "le_word (b # bs) = ucast b OR push_bit 8 (le_word bs)"

definition sizeof_pgid_t :: nat where "sizeof_pgid_t = 4"

text \<open>Modelled from the spec: \<^verbatim>\<open>sizeof(pgoff_t)\<close>, the width of the length prefix of a leaf
  slot ("Each leaf slot is \<^verbatim>\<open>key_len (pgoff_t) || key || value\<close>"); its declaration in
  \<^verbatim>\<open>page-manager.hpp\<close> is missing, and two bytes are assumed.\<close>

definition sizeof_pgoff_t :: nat where "sizeof_pgoff_t = 2"

text \<open>
  \<^verbatim>\<open>sizeof(std::string_view)\<close>: a pointer and a \<^verbatim>\<open>size_t\<close>; the header asserts
  \<^verbatim>\<open>sizeof(size_t) == 8\<close>.
\<close>

definition sizeof_string_view :: nat where "sizeof_string_view = 16"

subsection \<open>\<^verbatim>\<open>std::stoi\<close> on a C string\<close>

definition c_str :: "byte list \<Rightarrow> byte list" where
  "c_str bs = takeWhile (\<lambda>b. b \<noteq> 0) bs"

definition isspace :: "byte \<Rightarrow> bool" where
  "isspace b = (b = 32 \<or> (9 \<le> b \<and> b \<le> 13))"

definition isdigit :: "byte \<Rightarrow> bool" where
  "isdigit b = (48 \<le> b \<and> b \<le> 57)"

definition digits_val :: "byte list \<Rightarrow> nat" where
  "digits_val ds = foldl (\<lambda>acc d. 10 * acc + (unat d - 48)) 0 ds"

definition stoi :: "byte list \<Rightarrow> error + int" where
  "stoi bs =
     (let s = dropWhile isspace bs;
          neg = (case s of [] \<Rightarrow> False | c # cs \<Rightarrow> c = 45);
          r = (case s of [] \<Rightarrow> [] | c # cs \<Rightarrow> if c = 45 \<or> c = 43 then cs else s);
          ds = takeWhile isdigit r;
          v = (if neg then - int (digits_val ds) else int (digits_val ds))
      in if ds = [] then Inl InvalidArgument
         else if v < - (2 ^ 31) \<or> 2 ^ 31 - 1 < v then Inl OutOfRange
         else Inr v)"

section \<open>Slot codecs (\<^verbatim>\<open>bplus-tree.cpp\<close>)\<close>

record InnerSlot =
  "next" :: pgid_t
  strict_upper_bound :: string_view

definition InnerSlotParse :: "string_view \<Rightarrow> error + InnerSlot" where
  "InnerSlotParse slot =
     bindE (substr slot 0 (Some sizeof_pgid_t)) (\<lambda>v1.
     bindE (sv_read v1) (\<lambda>s1.
     bindE (stoi (c_str s1)) (\<lambda>n.
     bindE (substr slot sizeof_pgid_t None) (\<lambda>key.
     Inr \<lparr>next = word_of_int n, strict_upper_bound = key\<rparr>))))"

definition InnerSlotSize :: "InnerSlot \<Rightarrow> nat" where
  "InnerSlotSize slot = sizeof_pgid_t + sv_size (strict_upper_bound slot)"

definition InnerSlotSerialize :: "byte list \<Rightarrow> InnerSlot \<Rightarrow> error + byte list" where
  "InnerSlotSerialize s slot =
     (let next_len = sizeof_pgid_t;
          strict_len = sizeof_string_view
      in bindE (memcpy s 0 (le_bytes sizeof_pgid_t (next slot)) next_len) (\<lambda>s1.
         memcpy s1 next_len (sv_data (strict_upper_bound slot)) strict_len))"

record LeafSlot =
  key :: string_view
  "value" :: string_view

definition LeafSlotParse :: "string_view \<Rightarrow> error + LeafSlot" where
  "LeafSlotParse slot =
     bindE (memcpy (replicate sizeof_pgoff_t 0) 0 (sv_data slot) sizeof_pgoff_t) (\<lambda>kl.
     let key_leng = unat (le_word kl :: pgoff_t)
     in bindE (substr slot sizeof_pgoff_t (Some key_leng)) (\<lambda>k.
        bindE (substr slot (key_leng + sizeof_pgoff_t) None) (\<lambda>v.
        Inr \<lparr>key = k, value = v\<rparr>)))"

definition LeafSlotSize :: "LeafSlot \<Rightarrow> nat" where
  "LeafSlotSize slot = sizeof_pgoff_t + sv_size (key slot) + sv_size (value slot)"

definition LeafSlotSerialize :: "byte list \<Rightarrow> LeafSlot \<Rightarrow> error + byte list" where
  "LeafSlotSerialize s slot =
     (let key_len = sizeof_string_view;
          value_len = sizeof_string_view
      in bindE (memcpy s 0 (le_bytes sizeof_pgoff_t (word_of_nat key_len :: pgoff_t))
                  sizeof_pgoff_t) (\<lambda>s1.
         bindE (memcpy s1 sizeof_pgoff_t (sv_data (key slot)) key_len) (\<lambda>s2.
         memcpy s2 (key_len + sizeof_pgoff_t) (sv_data (value slot)) value_len)))"

text \<open>
  The serialised slot as the callers take it: the memory written at \<open>addr\<close>, viewed at the
  length that \<open>InnerSlotSize\<close> and \<open>LeafSlotSize\<close> give.
\<close>

definition inner_slot_bytes :: "byte list \<Rightarrow> InnerSlot \<Rightarrow> error + string_view" where
  "inner_slot_bytes addr slot =
     bindE (InnerSlotSerialize addr slot) (\<lambda>m.
     Inr \<lparr>sv_data = m, sv_size = InnerSlotSize slot\<rparr>)"

definition leaf_slot_bytes :: "byte list \<Rightarrow> LeafSlot \<Rightarrow> error + string_view" where
  "leaf_slot_bytes addr slot =
     bindE (LeafSlotSerialize addr slot) (\<lambda>m.
     Inr \<lparr>sv_data = m, sv_size = LeafSlotSize slot\<rparr>)"

section \<open>The page manager\<close>

text \<open>
  \<^verbatim>\<open>page-manager.hpp\<close> (\<^verbatim>\<open>PageManager\<close>, \<^verbatim>\<open>Page\<close>, \<^verbatim>\<open>PlainPage\<close>, \<^verbatim>\<open>SortedPage\<close>) is not
  among the sources at hand. This section models it from sections 4.2 and 6 of the
  specification. A page is a plain byte block or a sorted page: a list of slots and a
  special region. The page manager is the state that every operation of the tree threads
  through: an operation returns its result, or the error it raised, and the state it
  left. An exception undoes nothing of what was written before it.
\<close>

text \<open>Modelled from the spec: a page, "a fixed-size byte block". It is read raw (the
  meta page) or as a sorted page, the slots in their order and the special region.\<close>

datatype page = Plain "byte list" | Sorted "byte list list" "byte list"

text \<open>Modelled from the spec: the page manager, which hands out page ids and tracks the
  allocated pages; \<open>page_cap\<close> is the size of a page.\<close>

record PageManager =
  pages :: "pgid_t \<Rightarrow> page option"
  next_pgid :: pgid_t
  page_cap :: nat

text \<open>An operation on the page manager, and the plumbing that sequences operations:
  \<open>bnd m f\<close> runs \<open>m\<close> and, unless it raised, \<open>f\<close> on its result; \<open>lift\<close> takes in a
  computation that does not touch the pages.\<close>

type_synonym 'a io = "PageManager \<Rightarrow> (error + 'a) \<times> PageManager"

definition ret :: "'a \<Rightarrow> 'a io" where
  "ret x = (\<lambda>pm. (Inr x, pm))"

definition throw :: "error \<Rightarrow> 'a io" where
  "throw e = (\<lambda>pm. (Inl e, pm))"

definition bnd :: "'a io \<Rightarrow> ('a \<Rightarrow> 'b io) \<Rightarrow> 'b io" where
  "bnd m f = (\<lambda>pm. case m pm of (Inl e, pm') \<Rightarrow> (Inl e, pm') | (Inr x, pm') \<Rightarrow> f x pm')"

definition lift :: "error + 'a \<Rightarrow> 'a io" where
  "lift m = (\<lambda>pm. (m, pm))"

text \<open>\<^verbatim>\<open>std::weak_ordering\<close>, and the type of the comparators of a sorted page: the slot
  against a key, or against another slot.\<close>

datatype weak_ordering = Less | Equivalent | Greater

type_synonym slot_key_compare = "string_view \<Rightarrow> string_view \<Rightarrow> error + weak_ordering"

text \<open>Modelled from the spec: the handle of a page (\<^verbatim>\<open>Page\<close>, \<^verbatim>\<open>PlainPage\<close>), which
  names its page by \<^verbatim>\<open>ID()\<close>.\<close>

record Page =
  ID :: pgid_t

text \<open>Modelled from the spec: the handle of a sorted page, "parameterized by two comparators
  -- slot-vs-key and slot-vs-slot".\<close>

record SortedPage = Page +
  slot_key_comp :: slot_key_compare
  slot_comp :: slot_key_compare

text \<open>Modelled from the spec: \<^verbatim>\<open>allocate() \<rightarrow> pgid\<close>, "reserve a fresh page; contents are
  undefined until initialized". The fresh id is the next unused one; the block is taken
  to be zero-filled.\<close>

definition Allocate :: "pgid_t io" where
  "Allocate = (\<lambda>pm. (Inr (next_pgid pm),
     pm\<lparr>pages := (pages pm)(next_pgid pm \<mapsto> Plain (replicate (page_cap pm) 0)),
        next_pgid := next_pgid pm + 1\<rparr>))"

text \<open>Modelled from the spec: \<^verbatim>\<open>free(pgid)\<close>, "release a page".\<close>

definition Free :: "pgid_t \<Rightarrow> unit io" where
  "Free pgid = (\<lambda>pm. if pages pm pgid = None then (Inl PageFault, pm)
                      else (Inr (), pm\<lparr>pages := (pages pm)(pgid := None)\<rparr>))"

text \<open>Modelled from the spec: the bytes of a page read raw; a fault when the page is not
  allocated or is a sorted page.\<close>

definition plain_bytes :: "pgid_t \<Rightarrow> (byte list) io" where
  "plain_bytes pgid = (\<lambda>pm. case pages pm pgid of
       Some (Plain bs) \<Rightarrow> (Inr bs, pm) | _ \<Rightarrow> (Inl PageFault, pm))"

text \<open>Modelled from the spec: \<^verbatim>\<open>get_plain_page(pgid) \<rightarrow> PlainPage\<close>, "raw byte access
  with \<^verbatim>\<open>read(off, len)\<close> and \<^verbatim>\<open>write(off, bytes)\<close>".\<close>

definition GetPlainPage :: "pgid_t \<Rightarrow> Page io" where
  "GetPlainPage pgid = (\<lambda>pm. if pages pm pgid = None then (Inl PageFault, pm)
                              else (Inr \<lparr>ID = pgid\<rparr>, pm))"

text \<open>Modelled from the spec: \<^verbatim>\<open>read(off, len)\<close> of a plain page.\<close>

definition Read :: "Page \<Rightarrow> nat \<Rightarrow> nat \<Rightarrow> (byte list) io" where
  "Read p off len =
     bnd (plain_bytes (ID p)) (\<lambda>bs.
     if off + len \<le> length bs then ret (take len (drop off bs)) else throw PageFault)"

text \<open>Modelled from the spec: \<^verbatim>\<open>write(off, bytes)\<close> of a plain page.\<close>

definition Write :: "Page \<Rightarrow> nat \<Rightarrow> byte list \<Rightarrow> unit io" where
  "Write p off bytes =
     bnd (plain_bytes (ID p)) (\<lambda>bs pm.
     if off + length bytes \<le> length bs
     then (Inr (), pm\<lparr>pages := (pages pm)(ID p \<mapsto>
                 Plain (take off bs @ bytes @ drop (off + length bytes) bs))\<rparr>)
     else (Inl PageFault, pm))"

text \<open>Modelled from the spec: the slots and the special region of a sorted page; a fault
  when the page is not allocated or not initialised as a sorted page.\<close>

definition sorted_body :: "pgid_t \<Rightarrow> (byte list list \<times> byte list) io" where
  "sorted_body pgid = (\<lambda>pm. case pages pm pgid of
       Some (Sorted ss sp) \<Rightarrow> (Inr (ss, sp), pm) | _ \<Rightarrow> (Inl PageFault, pm))"

text \<open>Modelled from the spec: the write of the slots and the special region of a sorted
  page, by which the operations of 4.2 change it.\<close>

definition put_sorted :: "pgid_t \<Rightarrow> byte list list \<Rightarrow> byte list \<Rightarrow> unit io" where
  "put_sorted pgid ss sp =
     (\<lambda>pm. (Inr (), pm\<lparr>pages := (pages pm)(pgid \<mapsto> Sorted ss sp)\<rparr>))"

text \<open>Modelled from the spec: \<^verbatim>\<open>get_sorted_page(pgid, key_cmp, slot_cmp) \<rightarrow> SortedPage\<close>,
  "typed view with the operations listed in 4.2".\<close>

definition GetSortedPage ::
    "pgid_t \<Rightarrow> slot_key_compare \<Rightarrow> slot_key_compare \<Rightarrow> SortedPage io" where
  "GetSortedPage pgid kc sc =
     bnd (sorted_body pgid) (\<lambda>_.
     ret \<lparr>ID = pgid, slot_key_comp = kc, slot_comp = sc\<rparr>)"

text \<open>Modelled from the spec: \<^verbatim>\<open>alloc_sorted_page(key_cmp, slot_cmp) \<rightarrow> SortedPage\<close>,
  "allocate + view; requires \<^verbatim>\<open>init(special_len)\<close> to establish the special-region size
  before first use".\<close>

definition AllocSortedPage :: "slot_key_compare \<Rightarrow> slot_key_compare \<Rightarrow> SortedPage io" where
  "AllocSortedPage kc sc =
     bnd Allocate (\<lambda>pgid. ret \<lparr>ID = pgid, slot_key_comp = kc, slot_comp = sc\<rparr>)"

text \<open>Modelled from the spec: \<^verbatim>\<open>init(special_len)\<close>, which establishes the special-region
  size: it leaves no slot and a zero-filled special region.\<close>

definition Init :: "SortedPage \<Rightarrow> nat \<Rightarrow> unit io" where
  "Init p special_size = (\<lambda>pm. if pages pm (ID p) = None then (Inl PageFault, pm)
                              else put_sorted (ID p) [] (replicate special_size 0) pm)"

text \<open>Modelled from the spec: \<^verbatim>\<open>SlotNum()\<close>, the number of slots.\<close>

definition SlotNum :: "SortedPage \<Rightarrow> nat io" where
  "SlotNum p = bnd (sorted_body (ID p)) (\<lambda>(ss, sp). ret (length ss))"

text \<open>Modelled from the spec: \<^verbatim>\<open>Slot(i)\<close>. The slot is returned as a view of its bytes
  in the page; an index past the last slot is a fault.\<close>

definition Slot :: "SortedPage \<Rightarrow> nat \<Rightarrow> string_view io" where
  "Slot p i = bnd (sorted_body (ID p)) (\<lambda>(ss, sp).
     if i < length ss then ret (view_of (ss ! i)) else throw PageFault)"

text \<open>Modelled from the spec: \<^verbatim>\<open>IsEmpty()\<close> of a sorted page.\<close>

definition IsEmpty_page :: "SortedPage \<Rightarrow> bool io" where
  "IsEmpty_page p = bnd (SlotNum p) (\<lambda>n. ret (n = 0))"

text \<open>Modelled from the spec: the search for the smallest slot index whose comparison
  with the key satisfies \<open>ok\<close>, on which the bounds and the lookups of 4.2 rest. The slots
  are compared from the first on, and a comparison that throws ends the search.\<close>

fun first_slot ::
    "(weak_ordering \<Rightarrow> bool) \<Rightarrow> slot_key_compare \<Rightarrow> string_view \<Rightarrow> byte list list \<Rightarrow> nat
       \<Rightarrow> error + nat option" where
  "first_slot ok kc k [] i = Inr None"
| "first_slot ok kc k (s # ss) i =
     bindE (kc (view_of s) k) (\<lambda>ord.
     if ok ord then Inr (Some i) else first_slot ok kc k ss (Suc i))"

text \<open>Modelled from the spec: \<^verbatim>\<open>LowerBound(key)\<close>, "smallest slot index with
  \<^verbatim>\<open>slot_key \<ge> key\<close>"; the number of slots when there is none.\<close>

definition LowerBound :: "SortedPage \<Rightarrow> string_view \<Rightarrow> nat io" where
  "LowerBound p k = bnd (sorted_body (ID p)) (\<lambda>(ss, sp).
     bnd (lift (first_slot (\<lambda>ord. ord \<noteq> Less) (slot_key_comp p) k ss 0)) (\<lambda>r.
     ret (case r of None \<Rightarrow> length ss | Some i \<Rightarrow> i)))"

text \<open>Modelled from the spec: \<^verbatim>\<open>UpperBound(key)\<close>, "smallest slot index with
  \<^verbatim>\<open>slot_key > key\<close>"; the number of slots when there is none.\<close>

definition UpperBound :: "SortedPage \<Rightarrow> string_view \<Rightarrow> nat io" where
  "UpperBound p k = bnd (sorted_body (ID p)) (\<lambda>(ss, sp).
     bnd (lift (first_slot (\<lambda>ord. ord = Greater) (slot_key_comp p) k ss 0)) (\<lambda>r.
     ret (case r of None \<Rightarrow> length ss | Some i \<Rightarrow> i)))"

text \<open>Modelled from the spec: \<^verbatim>\<open>Find(key)\<close>, "slot index of an equal key, or empty". The
  tree stores the result in a slot index, so "empty" is the number of slots here.\<close>

definition Find :: "SortedPage \<Rightarrow> string_view \<Rightarrow> nat io" where
  "Find p k = bnd (sorted_body (ID p)) (\<lambda>(ss, sp).
     bnd (lift (first_slot (\<lambda>ord. ord = Equivalent) (slot_key_comp p) k ss 0)) (\<lambda>r.
     ret (case r of None \<Rightarrow> length ss | Some i \<Rightarrow> i)))"

text \<open>Modelled from the spec: \<^verbatim>\<open>FindSlot(key)\<close>, "slot content of an equal key, or
  empty".\<close>

definition FindSlot :: "SortedPage \<Rightarrow> string_view \<Rightarrow> (string_view option) io" where
  "FindSlot p k = bnd (sorted_body (ID p)) (\<lambda>(ss, sp).
     bnd (lift (first_slot (\<lambda>ord. ord = Equivalent) (slot_key_comp p) k ss 0)) (\<lambda>r.
     ret (case r of None \<Rightarrow> None | Some i \<Rightarrow> Some (view_of (ss ! i)))))"

text \<open>Modelled from the spec: \<^verbatim>\<open>IsInsertable(slot_bytes)\<close>, "whether a slot of the given size
  fits": the slots and the special region of a page take at most \<open>page_cap\<close> bytes.\<close>

definition IsInsertable :: "SortedPage \<Rightarrow> string_view \<Rightarrow> bool io" where
  "IsInsertable p s = bnd (sorted_body (ID p)) (\<lambda>(ss, sp) pm.
     (Inr (sum_list (map length ss) + length sp + sv_size s \<le> page_cap pm), pm))"

text \<open>Modelled from the spec: \<^verbatim>\<open>InsertBeforeSlot(i, slot_bytes)\<close>, "in-place insert (O(n)
  shift)". The tree returns its result as a \<^verbatim>\<open>bool\<close>: whether the slot was inserted.\<close>

definition InsertBeforeSlot :: "SortedPage \<Rightarrow> nat \<Rightarrow> string_view \<Rightarrow> bool io" where
  "InsertBeforeSlot p i s = bnd (sorted_body (ID p)) (\<lambda>(ss, sp).
     if length ss < i then throw PageFault
     else bnd (IsInsertable p s) (\<lambda>fits.
       if \<not> fits then ret False
       else bnd (lift (sv_read s)) (\<lambda>bs.
            bnd (put_sorted (ID p) (take i ss @ [bs] @ drop i ss) sp) (\<lambda>_. ret True))))"

text \<open>Modelled from the spec: \<^verbatim>\<open>DeleteSlot(i)\<close>; an index past the last slot is a
  fault.\<close>

definition DeleteSlot :: "SortedPage \<Rightarrow> nat \<Rightarrow> unit io" where
  "DeleteSlot p i = bnd (sorted_body (ID p)) (\<lambda>(ss, sp).
     if i < length ss then put_sorted (ID p) (take i ss @ drop (Suc i) ss) sp
     else throw PageFault)"

text \<open>Modelled from the spec: \<^verbatim>\<open>DeleteSlotByKey(key)\<close>, which deletes the slot of an
  equal key and tells whether there was one.\<close>

definition DeleteSlotByKey :: "SortedPage \<Rightarrow> string_view \<Rightarrow> bool io" where
  "DeleteSlotByKey p k = bnd (sorted_body (ID p)) (\<lambda>(ss, sp).
     bnd (lift (first_slot (\<lambda>ord. ord = Equivalent) (slot_key_comp p) k ss 0)) (\<lambda>r.
     case r of None \<Rightarrow> ret False
     | Some i \<Rightarrow> bnd (DeleteSlot p i) (\<lambda>_. ret True)))"

text \<open>Modelled from the spec: \<^verbatim>\<open>SplitInsert(new_page, slot_bytes, i)\<close>, "move the high half
  of slots into \<^verbatim>\<open>new_page\<close> and insert \<^verbatim>\<open>slot_bytes\<close> at position \<^verbatim>\<open>i\<close> on whichever side
  it now belongs". The halves are by number of slots; position \<open>i\<close> belongs to the low
  side up to and including the middle.\<close>

definition SplitInsert :: "SortedPage \<Rightarrow> SortedPage \<Rightarrow> string_view \<Rightarrow> nat \<Rightarrow> unit io" where
  "SplitInsert p right s i = bnd (sorted_body (ID p)) (\<lambda>(ss, sp).
     bnd (sorted_body (ID right)) (\<lambda>(rs, rsp).
     bnd (lift (sv_read s)) (\<lambda>bs.
     let mid = length ss div 2; low = take mid ss; high = drop mid ss
     in if length ss < i then throw PageFault
        else if i \<le> mid
        then bnd (put_sorted (ID p) (take i low @ [bs] @ drop i low) sp) (\<lambda>_.
             put_sorted (ID right) high rsp)
        else bnd (put_sorted (ID p) low sp) (\<lambda>_.
             put_sorted (ID right) (take (i - mid) high @ [bs] @ drop (i - mid) high) rsp))))"

text \<open>Modelled from the spec: \<^verbatim>\<open>ReadSpecial(offset, len)\<close>, "access to the fixed tail
  region".\<close>

definition ReadSpecial :: "SortedPage \<Rightarrow> nat \<Rightarrow> nat \<Rightarrow> (byte list) io" where
  "ReadSpecial p off len = bnd (sorted_body (ID p)) (\<lambda>(ss, sp).
     if off + len \<le> length sp then ret (take len (drop off sp)) else throw PageFault)"

text \<open>Modelled from the spec: \<^verbatim>\<open>WriteSpecial(offset, bytes)\<close>, "access to the fixed tail
  region".\<close>

definition WriteSpecial :: "SortedPage \<Rightarrow> nat \<Rightarrow> byte list \<Rightarrow> unit io" where
  "WriteSpecial p off bytes = bnd (sorted_body (ID p)) (\<lambda>(ss, sp).
     if off + length bytes \<le> length sp
     then put_sorted (ID p) ss (take off sp @ bytes @ drop (off + length bytes) sp)
     else throw PageFault)"

section \<open>The B+tree (\<^verbatim>\<open>bplus-tree.hpp\<close>)\<close>

text \<open>
  The template parameter \<^verbatim>\<open>Compare\<close> orders keys by their bytes. A tree handle holds
  the id of its meta page and the comparator (the members \<^verbatim>\<open>meta_pgid_\<close> and \<^verbatim>\<open>comp_\<close>,
  here \<open>m_meta_pgid\<close> and \<open>m_comp\<close>); its reference \<^verbatim>\<open>pgm_\<close> to the page manager is
  the state that the operations thread through.
\<close>

type_synonym Compare = "byte list \<Rightarrow> byte list \<Rightarrow> weak_ordering"

definition compare_views :: "Compare \<Rightarrow> string_view \<Rightarrow> string_view \<Rightarrow> error + weak_ordering" where
  "compare_views cmp a b =
     bindE (sv_read a) (\<lambda>x. bindE (sv_read b) (\<lambda>y. Inr (cmp x y)))"

record BPlusTree =
  m_meta_pgid :: pgid_t
  m_comp :: Compare

subsection \<open>Helper classes and functions\<close>

definition InnerSlotKeyCompare :: "Compare \<Rightarrow> slot_key_compare" where
  "InnerSlotKeyCompare cmp slot k =
     bindE (InnerSlotParse slot) (\<lambda>s. compare_views cmp (strict_upper_bound s) k)"

definition InnerSlotCompare :: "Compare \<Rightarrow> slot_key_compare" where
  "InnerSlotCompare cmp a b =
     bindE (InnerSlotParse a) (\<lambda>sa.
     bindE (InnerSlotParse b) (\<lambda>sb.
     compare_views cmp (strict_upper_bound sa) (strict_upper_bound sb)))"

definition LeafSlotKeyCompare :: "Compare \<Rightarrow> slot_key_compare" where
  "LeafSlotKeyCompare cmp slot k =
     bindE (LeafSlotParse slot) (\<lambda>s. compare_views cmp (key s) k)"

definition LeafSlotCompare :: "Compare \<Rightarrow> slot_key_compare" where
  "LeafSlotCompare cmp a b =
     bindE (LeafSlotParse a) (\<lambda>sa.
     bindE (LeafSlotParse b) (\<lambda>sb.
     compare_views cmp (key sa) (key sb)))"

definition GetInnerPage :: "BPlusTree \<Rightarrow> pgid_t \<Rightarrow> SortedPage io" where
  "GetInnerPage t pgid =
     GetSortedPage pgid (InnerSlotKeyCompare (m_comp t)) (InnerSlotCompare (m_comp t))"

definition GetLeafPage :: "BPlusTree \<Rightarrow> pgid_t \<Rightarrow> SortedPage io" where
  "GetLeafPage t pgid =
     GetSortedPage pgid (LeafSlotKeyCompare (m_comp t)) (LeafSlotCompare (m_comp t))"

definition GetMetaPage :: "BPlusTree \<Rightarrow> Page io" where
  "GetMetaPage t = GetPlainPage (m_meta_pgid t)"

text \<open>\<^verbatim>\<open>FreePage\<close> drops the handle and frees the page of that id.\<close>

definition FreePage :: "'a Page_scheme \<Rightarrow> unit io" where
  "FreePage page = (let pgid = ID page in Free pgid)"

definition AllocInnerPage :: "BPlusTree \<Rightarrow> SortedPage io" where
  "AllocInnerPage t =
     bnd (AllocSortedPage (InnerSlotKeyCompare (m_comp t)) (InnerSlotCompare (m_comp t))) (\<lambda>inner.
     bnd (Init inner sizeof_pgid_t) (\<lambda>_. ret inner))"

definition AllocLeafPage :: "BPlusTree \<Rightarrow> SortedPage io" where
  "AllocLeafPage t =
     bnd (AllocSortedPage (LeafSlotKeyCompare (m_comp t)) (LeafSlotCompare (m_comp t))) (\<lambda>leaf.
     bnd (Init leaf (sizeof_pgid_t * 2)) (\<lambda>_. ret leaf))"

definition GetInnerSpecial :: "SortedPage \<Rightarrow> pgid_t io" where
  "GetInnerSpecial inner = bnd (ReadSpecial inner 0 sizeof_pgid_t) (\<lambda>bs. ret (le_word bs))"

definition SetInnerSpecial :: "SortedPage \<Rightarrow> pgid_t \<Rightarrow> unit io" where
  "SetInnerSpecial inner page = WriteSpecial inner 0 (le_bytes sizeof_pgid_t page)"

definition GetLeafPrev :: "SortedPage \<Rightarrow> pgid_t io" where
  "GetLeafPrev leaf = bnd (ReadSpecial leaf 0 sizeof_pgid_t) (\<lambda>bs. ret (le_word bs))"

definition SetLeafPrev :: "SortedPage \<Rightarrow> pgid_t \<Rightarrow> unit io" where
  "SetLeafPrev leaf pgid = WriteSpecial leaf 0 (le_bytes sizeof_pgid_t pgid)"

definition GetLeafNext :: "SortedPage \<Rightarrow> pgid_t io" where
  "GetLeafNext leaf =
     bnd (ReadSpecial leaf sizeof_pgid_t sizeof_pgid_t) (\<lambda>bs. ret (le_word bs))"

definition SetLeafNext :: "SortedPage \<Rightarrow> pgid_t \<Rightarrow> unit io" where
  "SetLeafNext leaf pgid = WriteSpecial leaf sizeof_pgid_t (le_bytes sizeof_pgid_t pgid)"

definition LevelNum :: "BPlusTree \<Rightarrow> (8 word) io" where
  "LevelNum t = bnd (GetMetaPage t) (\<lambda>m. bnd (Read m 0 1) (\<lambda>bs. ret (le_word bs)))"

definition UpdateLevelNum :: "BPlusTree \<Rightarrow> 8 word \<Rightarrow> unit io" where
  "UpdateLevelNum t level_num = bnd (GetMetaPage t) (\<lambda>m. Write m 0 (le_bytes 1 level_num))"

definition Root :: "BPlusTree \<Rightarrow> pgid_t io" where
  "Root t = bnd (GetMetaPage t) (\<lambda>m. bnd (Read m 4 sizeof_pgid_t) (\<lambda>bs. ret (le_word bs)))"

definition UpdateRoot :: "BPlusTree \<Rightarrow> pgid_t \<Rightarrow> unit io" where
  "UpdateRoot t root = bnd (GetMetaPage t) (\<lambda>m. Write m 4 (le_bytes sizeof_pgid_t root))"

definition UpdateTupleNum :: "BPlusTree \<Rightarrow> 64 word \<Rightarrow> unit io" where
  "UpdateTupleNum t num = bnd (GetMetaPage t) (\<lambda>m. Write m 8 (le_bytes 8 num))"

definition LeafSmallestKey :: "SortedPage \<Rightarrow> string_view io" where
  "LeafSmallestKey leaf =
     bnd (SlotNum leaf) (\<lambda>n.
     if \<not> n > 0 then throw AssertionFailed
     else bnd (Slot leaf 0) (\<lambda>sl. bnd (lift (LeafSlotParse sl)) (\<lambda>slot. ret (key slot))))"

definition InnerFirstPage :: "SortedPage \<Rightarrow> pgid_t io" where
  "InnerFirstPage inner =
     bnd (IsEmpty_page inner) (\<lambda>e.
     if e then GetInnerSpecial inner
     else bnd (Slot inner 0) (\<lambda>sl. bnd (lift (InnerSlotParse sl)) (\<lambda>slot. ret (next slot))))"

text \<open>The loop \<^verbatim>\<open>while (--level)\<close> of \<^verbatim>\<open>SmallestLeaf\<close>, \<open>n\<close> steps.\<close>

fun SmallestLeaf_loop :: "BPlusTree \<Rightarrow> pgid_t \<Rightarrow> nat \<Rightarrow> pgid_t io" where
  "SmallestLeaf_loop t cur 0 = ret cur"
| "SmallestLeaf_loop t cur (Suc n) =
     bnd (GetInnerPage t cur) (\<lambda>p.
     bnd (InnerFirstPage p) (\<lambda>cur'. SmallestLeaf_loop t cur' n))"

definition SmallestLeaf :: "BPlusTree \<Rightarrow> SortedPage \<Rightarrow> 8 word \<Rightarrow> pgid_t io" where
  "SmallestLeaf t inner level =
     (if \<not> level > 0 then throw AssertionFailed
      else bnd (InnerFirstPage inner) (\<lambda>cur. SmallestLeaf_loop t cur (unat level - 1)))"

definition InnerSmallestKey :: "BPlusTree \<Rightarrow> SortedPage \<Rightarrow> 8 word \<Rightarrow> string_view io" where
  "InnerSmallestKey t inner level =
     bnd (SmallestLeaf t inner level) (\<lambda>pgid.
     bnd (GetLeafPage t pgid) LeafSmallestKey)"

subsection \<open>Create and Open\<close>

text \<open>The private constructor.\<close>

definition Self :: "pgid_t \<Rightarrow> Compare \<Rightarrow> BPlusTree" where
  "Self meta_pgid cmp = \<lparr>m_meta_pgid = meta_pgid, m_comp = cmp\<rparr>"

definition Create :: "Compare \<Rightarrow> BPlusTree io" where
  "Create Compare =
     bnd Allocate (\<lambda>mp.
     let tree = Self mp Compare
     in bnd (AllocLeafPage tree) (\<lambda>root.
        let root_id = ID root
        in bnd (UpdateRoot tree root_id) (\<lambda>_.
           bnd (UpdateLevelNum tree 1) (\<lambda>_.
           bnd (UpdateTupleNum tree 0) (\<lambda>_.
           ret tree)))))"

definition Open :: "Compare \<Rightarrow> pgid_t \<Rightarrow> BPlusTree io" where
  "Open Compare meta_pgid = ret (Self meta_pgid Compare)"

definition MetaPageID :: "BPlusTree \<Rightarrow> pgid_t" where
  "MetaPageID t = m_meta_pgid t"

subsection \<open>The iterator\<close>

text \<open>
  The members \<^verbatim>\<open>page_id_\<close> and \<^verbatim>\<open>slot_id_\<close> are \<open>m_page_id\<close> and \<open>m_slot_id\<close> here; a slot
  index is a natural number. The constructor of \<^verbatim>\<open>Iter\<close> initialises both members from
  themselves (\<^verbatim>\<open>page_id_(page_id_), slot_id_(slot_id_)\<close>), not from its arguments: they
  keep the indeterminate values \<open>u\<close> that the object's memory held.
\<close>

record Iter =
  iter_meta_pgid :: pgid_t
  m_page_id :: pgid_t
  m_slot_id :: nat

definition Iter_ctor :: "pgid_t \<times> nat \<Rightarrow> pgid_t \<Rightarrow> pgid_t \<Rightarrow> nat \<Rightarrow> Iter" where
  "Iter_ctor u page_id meta_pgid slot_id =
     \<lparr>iter_meta_pgid = meta_pgid, m_page_id = fst u, m_slot_id = snd u\<rparr>"

definition Next :: "Compare \<Rightarrow> Iter \<Rightarrow> Iter io" where
  "Next Compare it =
     bnd (Open Compare (iter_meta_pgid it)) (\<lambda>bplus.
     bnd (GetLeafPage bplus (m_page_id it)) (\<lambda>leaf.
     bnd (SlotNum leaf) (\<lambda>n.
     if m_slot_id it \<ge> n
     then bnd (GetLeafNext leaf) (\<lambda>nx.
          let it1 = it\<lparr>m_page_id := nx\<rparr>
          in bnd (GetLeafNext leaf) (\<lambda>nx2.
             if nx2 = 0 then ret it1
             else let it2 = it1\<lparr>m_slot_id := 0\<rparr>
                  in ret (it2\<lparr>m_slot_id := m_slot_id it2 + 1\<rparr>)))
     else ret (it\<lparr>m_slot_id := m_slot_id it + 1\<rparr>))))"

subsection \<open>Member functions that cannot be instantiated\<close>

text \<open>
  \<^verbatim>\<open>BPlusTree\<close> is a class template: a member function is compiled only when a program
  uses it. The following members are ill-formed when they are, so no program runs them
  and they have no embedding here.
  \<^item> \<^verbatim>\<open>Iter(Iter&&)\<close> (line 99) does not initialise the member \<^verbatim>\<open>pgm_\<close>, a
    \<^verbatim>\<open>std::reference_wrapper\<close>, which has no default constructor.
  \<^item> \<^verbatim>\<open>Begin\<close> (lines 528-533) returns a local \<^verbatim>\<open>Iter\<close> by value, which needs that move
    constructor; so do \<^verbatim>\<open>LowerBound\<close> and \<^verbatim>\<open>UpperBound\<close> of the tree.
  \<^item> \<^verbatim>\<open>TupleNum\<close> (lines 610-629) calls \<^verbatim>\<open>Begin\<close>; \<^verbatim>\<open>IsEmpty\<close> and \<^verbatim>\<open>IncreaseTupleNum\<close>
    call \<^verbatim>\<open>TupleNum\<close>; \<^verbatim>\<open>Delete\<close> (line 512) and \<^verbatim>\<open>MaxKey\<close> call \<^verbatim>\<open>IsEmpty\<close>; \<^verbatim>\<open>Update\<close>
    and \<^verbatim>\<open>Take\<close> call \<^verbatim>\<open>Delete\<close>.
  \<^item> \<^verbatim>\<open>Get\<close> (lines 408-410, 437-439) passes the \<^verbatim>\<open>std::optional\<close> of \<^verbatim>\<open>FindSlot\<close> to
    \<^verbatim>\<open>LeafSlotParse\<close> and returns a \<^verbatim>\<open>std::string_view\<close> where a
    \<^verbatim>\<open>std::optional<std::string>\<close> is declared.
  \<^item> \<^verbatim>\<open>Iter::Cur\<close> (line 114) calls \<^verbatim>\<open>bplus.LeafSlotParse\<close>, which is not a member of the
    tree.
  What these functions are written to do first is made of operations that do run: the
  reads of the meta page, \<open>GetInnerPage\<close>, \<open>GetLeafPage\<close>, and the searches \<open>UpperBound\<close>
  and \<open>FindSlot\<close> with the comparators of the tree.
\<close>

subsection \<open>Insert\<close>

text \<open>
  \<^verbatim>\<open>Insert\<close> declares \<^verbatim>\<open>char* addr;\<close> four times (lines 247, 269, 307, 332) and writes
  each serialised slot through it without ever assigning it. Which memory such a pointer
  designates, if any, the program does not determine, and a caller cannot choose it.
  The embedding makes it explicit: \<open>addr\<close> is the memory behind the pointer as the call
  finds it, each of the four declarations designating a region of its own with those
  bytes. A pointer to no writable memory is \<open>addr = []\<close>, and a region shorter than the
  write is no better: there the call is \<open>Undefined\<close> and changes no page, which in a run
  is the crash. No property of \<open>Insert\<close> may depend on a choice of \<open>addr\<close>: each one
  below is stated for every \<open>addr\<close>.
  The stack \<^verbatim>\<open>par\<close> is a list, its top at the head.
\<close>

fun Insert_descend ::
    "BPlusTree \<Rightarrow> string_view \<Rightarrow> SortedPage \<Rightarrow> (pgid_t \<times> 8 word) list \<Rightarrow> nat
       \<Rightarrow> (SortedPage \<times> (pgid_t \<times> 8 word) list) io" where
  "Insert_descend t k inn par level =
     (if level > 1
      then bnd (UpperBound inn k) (\<lambda>upper.
           bnd (SlotNum inn) (\<lambda>n.
           bnd (if upper = n
                then bnd (GetInnerSpecial inn) (GetInnerPage t)
                else bnd (Slot inn upper) (\<lambda>sl.
                     bnd (lift (InnerSlotParse sl)) (\<lambda>s. GetInnerPage t (next s)))) (\<lambda>inn'.
           Insert_descend t k inn' ((ID inn', of_nat level) # par) (level - 1))))
      else ret (inn, par))"

text \<open>The root is a leaf (\<^verbatim>\<open>level == 0\<close>).\<close>

definition Insert_root_leaf ::
    "BPlusTree \<Rightarrow> byte list \<Rightarrow> pgid_t \<Rightarrow> string_view \<Rightarrow> string_view \<Rightarrow> bool io" where
  "Insert_root_leaf t addr cur k s =
     bnd (bnd (GetLeafPage t cur) (\<lambda>p. Find p k)) (\<lambda>slot_id.
     bnd (bnd (GetLeafPage t cur) (\<lambda>p. IsInsertable p s)) (\<lambda>fits.
     if fits then bnd (GetLeafPage t cur) (\<lambda>p. InsertBeforeSlot p slot_id s)
     else bnd (AllocLeafPage t) (\<lambda>l_next.
          let l_next_id = ID l_next
          in bnd (GetLeafPage t cur) (\<lambda>cur_page.
             bnd (SetLeafPrev cur_page l_next_id) (\<lambda>_.
             bnd (SetLeafNext l_next cur) (\<lambda>_.
             bnd (bnd (GetLeafPage t cur) (\<lambda>p. SplitInsert p l_next s slot_id)) (\<lambda>_.
             bnd (AllocInnerPage t) (\<lambda>ro.
             let ro_id = ID ro
             in bnd (UpdateRoot t ro_id) (\<lambda>_.
                bnd (bnd (GetLeafPage t cur) (\<lambda>p. Slot p 0)) (\<lambda>sl.
                bnd (lift (LeafSlotParse sl)) (\<lambda>ls.
                let str_upp = key ls;
                    root_slot = \<lparr>next = l_next_id, strict_upper_bound = str_upp\<rparr>
                in bnd (lift (inner_slot_bytes addr root_slot)) (\<lambda>rs.
                   bnd (InsertBeforeSlot ro 0 rs) (\<lambda>_.
                   bnd (SetInnerSpecial ro cur) (\<lambda>_.
                   bnd (UpdateLevelNum t 2) (\<lambda>_.
                   ret True)))))))))))))))"

text \<open>
  The loop \<^verbatim>\<open>while (!inn.IsInsertable(std::string_view(addr, InnerSlotSize(slot_next))))\<close>.
  In its condition and in both \<^verbatim>\<open>SplitInsert\<close> calls, \<^verbatim>\<open>slot_next\<close>, \<^verbatim>\<open>upper\<close> and \<^verbatim>\<open>lev\<close>
  are the variables declared before the loop (size \<open>sz\<close>, \<open>upper\<close>, \<open>lev\<close>): the body
  declares its own ones later, which shadow them from there to the end of the body.
  \<open>addr0\<close> is the region of the body's own \<^verbatim>\<open>char* addr\<close>.
\<close>

fun Insert_split_loop ::
    "BPlusTree \<Rightarrow> byte list \<Rightarrow> pgid_t \<Rightarrow> string_view \<Rightarrow> 8 word \<Rightarrow> nat \<Rightarrow> nat
       \<Rightarrow> SortedPage \<Rightarrow> (pgid_t \<times> 8 word) list \<Rightarrow> byte list \<Rightarrow> bool io" where
  "Insert_split_loop t addr0 cur k lev upper sz inn par addr =
     bnd (IsInsertable inn \<lparr>sv_data = addr, sv_size = sz\<rparr>) (\<lambda>fits.
     if fits then ret True
     else bnd (LevelNum t) (\<lambda>ln.
       if uint lev = uint ln - 1
       then bnd (AllocInnerPage t) (\<lambda>i_next.
            let i_next_id = ID i_next
            in bnd (SplitInsert inn i_next \<lparr>sv_data = addr, sv_size = sz\<rparr> upper) (\<lambda>_.
               bnd (AllocInnerPage t) (\<lambda>new_ro.
               let new_ro_id = ID new_ro
               in bnd (UpdateRoot t new_ro_id) (\<lambda>_.
                  bnd (Slot inn 0) (\<lambda>sl.
                  bnd (lift (LeafSlotParse sl)) (\<lambda>ls.
                  let str_upp = key ls;
                      root_slot = \<lparr>next = i_next_id, strict_upper_bound = str_upp\<rparr>
                  in bnd (lift (inner_slot_bytes addr0 root_slot)) (\<lambda>rs.
                     bnd (InsertBeforeSlot new_ro 0 rs) (\<lambda>_.
                     bnd (SetInnerSpecial new_ro cur) (\<lambda>_.
                     bnd (LevelNum t) (\<lambda>ln2.
                     bnd (UpdateLevelNum t (ln2 + 1)) (\<lambda>_.
                     ret True)))))))))))
       else bnd (AllocInnerPage t) (\<lambda>nxt.
            let next_id = ID nxt
            in case par of [] \<Rightarrow> throw Undefined
               | po # par' \<Rightarrow>
                 let lev' = snd po
                 in bnd (SplitInsert inn nxt \<lparr>sv_data = addr, sv_size = sz\<rparr> upper) (\<lambda>_.
                    bnd (SlotNum nxt) (\<lambda>n.
                    bnd (Slot nxt (n - 1)) (\<lambda>sl.
                    bnd (lift (InnerSlotParse sl)) (\<lambda>ps.
                    let ri = next ps
                    in bnd (SetInnerSpecial nxt ri) (\<lambda>_.
                       bnd (SlotNum nxt) (\<lambda>n2.
                       bnd (DeleteSlot nxt (n2 - 1)) (\<lambda>_.
                       bnd (InnerSmallestKey t inn lev') (\<lambda>s_upper.
                       let slot_next = \<lparr>next = next_id, strict_upper_bound = s_upper\<rparr>
                       in bnd (lift (InnerSlotSerialize addr slot_next)) (\<lambda>addr'.
                          let pa = fst po
                          in bnd (GetInnerPage t pa) (\<lambda>inn'.
                             bnd (UpperBound inn' k) (\<lambda>upper'.
                             let sv' = \<lparr>sv_data = addr', sv_size = InnerSlotSize slot_next\<rparr>
                             in bnd (IsInsertable inn' sv') (\<lambda>fits'.
                                bnd (if fits'
                                     then bnd (InsertBeforeSlot inn' upper' sv') (\<lambda>_. ret ())
                                     else ret ()) (\<lambda>_.
                                Insert_split_loop t addr0 cur k lev upper sz inn' par' addr'
                                ))))))))))))))))"

definition Insert :: "BPlusTree \<Rightarrow> byte list \<Rightarrow> string_view \<Rightarrow> string_view \<Rightarrow> bool io" where
  "Insert t addr k v =
     bnd (Root t) (\<lambda>cur.
     bnd (LevelNum t) (\<lambda>ln.
     let level = ln - 1;
         leaf_s = \<lparr>key = k, value = v\<rparr>
     in bnd (lift (leaf_slot_bytes addr leaf_s)) (\<lambda>s.
        if level = 0 then Insert_root_leaf t addr cur k s
        else bnd (GetInnerPage t cur) (\<lambda>inn0.
             bnd (Insert_descend t k inn0 [] (unat level)) (\<lambda>(inn1, par1).
             bnd (UpperBound inn1 k) (\<lambda>upper1.
             bnd (bnd (Slot inn1 upper1) (\<lambda>sl.
                  bnd (lift (InnerSlotParse sl)) (\<lambda>ps. GetLeafPage t (next ps)))) (\<lambda>leaf.
             bnd (Find leaf k) (\<lambda>slot_id.
             let par2 = (ID leaf, 1) # par1 \<comment> \<open>\<^verbatim>\<open>level\<close> is 1 after the descent\<close>
             in bnd (IsInsertable leaf s) (\<lambda>fits.
                if fits then InsertBeforeSlot leaf slot_id s
                else bnd (AllocLeafPage t) (\<lambda>leaf_next.
                     let leaf_next_id = ID leaf_next
                     in bnd (SplitInsert leaf leaf_next s slot_id) (\<lambda>_.
                        bnd (SetLeafPrev leaf leaf_next_id) (\<lambda>_.
                        bnd (SetLeafNext leaf_next (ID leaf)) (\<lambda>_.
                        bnd (Slot leaf 0) (\<lambda>sl.
                        bnd (lift (LeafSlotParse sl)) (\<lambda>ls.
                        let s_upper = key ls;
                            slot_next = \<lparr>next = leaf_next_id, strict_upper_bound = s_upper\<rparr>
                        in bnd (lift (InnerSlotSerialize addr slot_next)) (\<lambda>addr1.
                           case par2 of [] \<Rightarrow> throw Undefined
                           | po # par3 \<Rightarrow>
                             let pa = fst po; lev = snd po;
                                 sv = \<lparr>sv_data = addr1, sv_size = InnerSlotSize slot_next\<rparr>
                             in bnd (GetInnerPage t pa) (\<lambda>inn2.
                                bnd (UpperBound inn2 k) (\<lambda>upper.
                                bnd (IsInsertable inn2 sv) (\<lambda>fits2.
                                bnd (if fits2
                                     then bnd (InsertBeforeSlot inn2 upper sv) (\<lambda>_. ret ())
                                     else ret ()) (\<lambda>_.
                                Insert_split_loop t addr cur k lev upper (InnerSlotSize slot_next)
                                  inn2 par3 addr1))))))))))))))))))))"

subsection \<open>Destroy\<close>

text \<open>The loop \<^verbatim>\<open>while (1)\<close> of \<^verbatim>\<open>Destroy\<close>, at most \<open>fuel\<close> iterations.\<close>

fun Destroy_loop :: "nat \<Rightarrow> BPlusTree \<Rightarrow> SortedPage \<Rightarrow> 8 word \<Rightarrow> pgid_t list \<Rightarrow> unit io" where
  "Destroy_loop 0 t cur level p_stack = throw OutOfFuel"
| "Destroy_loop (Suc fuel) t cur level p_stack =
     bnd (SlotNum cur) (\<lambda>n.
     if n \<noteq> 0
     then bnd (Slot cur 0) (\<lambda>sl.
          bnd (lift (InnerSlotParse sl)) (\<lambda>ps.
          let s = next ps
          in if level > 1
             then bnd (GetInnerPage t s) (\<lambda>cur'.
                  Destroy_loop fuel t cur' (level - 1) (ID cur' # p_stack))
             else bnd (GetLeafPage t s) (\<lambda>lp.
                  let leaf_id = ID lp
                  in bnd (bnd (GetLeafPage t leaf_id) FreePage) (\<lambda>_.
                     bnd (DeleteSlot cur 0) (\<lambda>_.
                     Destroy_loop fuel t cur level p_stack)))))
     else bnd (GetInnerSpecial cur) (\<lambda>spa.
          bnd (if level > 1
               then bnd (GetInnerPage t spa) FreePage
               else bnd (GetLeafPage t spa) FreePage) (\<lambda>_.
          bnd (FreePage cur) (\<lambda>_.
          case p_stack of [] \<Rightarrow> throw Undefined
          | _ # rest \<Rightarrow>
              (case rest of [] \<Rightarrow> ret ()
               | top_id # _ \<Rightarrow>
                   bnd (GetInnerPage t top_id) (\<lambda>cur'.
                   bnd (DeleteSlot cur' 0) (\<lambda>_.
                   Destroy_loop fuel t cur' (level + 1) rest)))))))"

definition Destroy :: "nat \<Rightarrow> BPlusTree \<Rightarrow> unit io" where
  "Destroy fuel t =
     bnd (Root t) (\<lambda>root.
     let p_stack = [root]
     in bnd (LevelNum t) (\<lambda>ln.
        let level = ln - 1
        in if level = 0
           then bnd (bnd (GetLeafPage t root) FreePage) (\<lambda>_.
                bnd (GetMetaPage t) FreePage)
           else bnd (GetInnerPage t root) (\<lambda>cur.
                bnd (Destroy_loop fuel t cur level p_stack) (\<lambda>_.
                bnd (GetMetaPage t) FreePage))))"

section \<open>Observing an operation\<close>

text \<open>
  \<open>outcome\<close> is what an operation returns or raises from a state of the page manager;
  \<open>exec\<close> is the state it leaves.
\<close>

definition outcome :: "'a io \<Rightarrow> PageManager \<Rightarrow> error + 'a" where
  "outcome m pm = fst (m pm)"

definition exec :: "'a io \<Rightarrow> PageManager \<Rightarrow> PageManager" where
  "exec m pm = snd (m pm)"

text \<open>The round trip of a slot through its codec: what is parsed from what was serialised.\<close>

definition inner_roundtrip :: "byte list \<Rightarrow> InnerSlot \<Rightarrow> error + pgid_t \<times> byte list" where
  "inner_roundtrip addr slot =
     bindE (inner_slot_bytes addr slot) (\<lambda>s.
     bindE (InnerSlotParse s) (\<lambda>p.
     bindE (sv_read (strict_upper_bound p)) (\<lambda>kb. Inr (next p, kb))))"

definition leaf_roundtrip :: "byte list \<Rightarrow> LeafSlot \<Rightarrow> error + byte list \<times> byte list" where
  "leaf_roundtrip addr slot =
     bindE (leaf_slot_bytes addr slot) (\<lambda>s.
     bindE (LeafSlotParse s) (\<lambda>p.
     bindE (sv_read (key p)) (\<lambda>kb.
     bindE (sv_read (value p)) (\<lambda>vb. Inr (kb, vb)))))"

text \<open>The field \<^verbatim>\<open>tuple_num\<close> of the meta page, as \<open>UpdateTupleNum\<close> writes it.\<close>

definition tuple_num_field :: "BPlusTree \<Rightarrow> (64 word) io" where
  "tuple_num_field t = bnd (GetMetaPage t) (\<lambda>m. bnd (Read m 8 8) (\<lambda>bs. ret (le_word bs)))"

section \<open>Small trees\<close>

text \<open>
  Keys are compared byte by byte. Pages are 80 bytes long: a leaf takes two slots of a
  16-byte key and a 16-byte value, and a third one does not fit.
\<close>

fun lex_compare :: Compare where
  "lex_compare [] [] = Equivalent"
| "lex_compare [] (y # ys) = Less"
| "lex_compare (x # xs) [] = Greater"
| "lex_compare (x # xs) (y # ys) =
     (if x < y then Less else if y < x then Greater else lex_compare xs ys)"

definition pm0 :: PageManager where
  "pm0 = \<lparr>pages = (\<lambda>_. None), next_pgid = 1, page_cap = 80\<rparr>"

definition scratch :: "byte list" where "scratch = replicate 40 0"

definition ka :: "byte list" where "ka = replicate 16 97"
definition kb :: "byte list" where "kb = replicate 16 98"
definition kc :: "byte list" where "kc = replicate 16 99"
definition v1 :: "byte list" where "v1 = replicate 16 49"
definition v2 :: "byte list" where "v2 = replicate 16 50"
definition v3 :: "byte list" where "v3 = replicate 16 51"

text \<open>The key \<^verbatim>\<open>"a"\<close> and the value \<^verbatim>\<open>"1"\<close>: views of the first byte of longer buffers.\<close>

definition key_a :: string_view where "key_a = \<lparr>sv_data = ka, sv_size = 1\<rparr>"
definition val_1 :: string_view where "val_1 = \<lparr>sv_data = v1, sv_size = 1\<rparr>"

text \<open>
  \<open>Create\<close> takes page 1 as the meta page and page 2 as the root leaf: \<open>pm_created\<close> is
  the new tree. The states \<open>pm_one\<close>, \<open>pm_two\<close> and \<open>pm_split\<close> are what three calls of
  \<open>Insert\<close> leave when the memory behind \<^verbatim>\<open>addr\<close> is \<open>scratch\<close>: \<open>pm_one\<close> holds \<open>ka\<close>;
  \<open>pm_two\<close> holds \<open>ka\<close> and \<open>kb\<close>, and its leaf is full; \<open>pm_split\<close> has the leaves 2 and
  3 under the root 4.
\<close>

definition tree1 :: BPlusTree where "tree1 = Self 1 lex_compare"

definition pm_created :: PageManager where
  "pm_created = exec (Create lex_compare) pm0"

definition pm_one :: PageManager where
  "pm_one = exec (Insert tree1 scratch (view_of ka) (view_of v1)) pm_created"

definition pm_two :: PageManager where
  "pm_two = exec (Insert tree1 scratch (view_of kb) (view_of v2)) pm_one"

definition pm_split :: PageManager where
  "pm_split = exec (Insert tree1 scratch (view_of kc) (view_of v3)) pm_two"

text \<open>
  Trees as the header lays them out (lines 23-46), written down page by page: what a
  program receives that opens a stored tree by the id of its meta page. A leaf slot is
  the length of the key, the key and the value; an inner slot is the child and its
  strict upper bound; the special region of a leaf is the previous and the next leaf.
\<close>

definition leaf_slot :: "byte list \<Rightarrow> byte list \<Rightarrow> byte list" where
  "leaf_slot k v = le_bytes sizeof_pgoff_t (of_nat (length k) :: pgoff_t) @ k @ v"

definition inner_slot :: "pgid_t \<Rightarrow> byte list \<Rightarrow> byte list" where
  "inner_slot child k = le_bytes sizeof_pgid_t child @ k"

definition leaf_special :: "pgid_t \<Rightarrow> pgid_t \<Rightarrow> byte list" where
  "leaf_special prev_leaf next_leaf =
     le_bytes sizeof_pgid_t prev_leaf @ le_bytes sizeof_pgid_t next_leaf"

definition meta_page :: "8 word \<Rightarrow> pgid_t \<Rightarrow> 64 word \<Rightarrow> byte list" where
  "meta_page level_num root tuple_num =
     le_bytes 1 level_num @ [0, 0, 0] @ le_bytes sizeof_pgid_t root @ le_bytes 8 tuple_num
       @ replicate 64 0"

text \<open>The new tree: an empty leaf.\<close>

definition new_tree :: PageManager where
  "new_tree =
     \<lparr>pages = [1 \<mapsto> Plain (meta_page 1 2 0),
               2 \<mapsto> Sorted [] (leaf_special 0 0)],
      next_pgid = 3, page_cap = 80\<rparr>"

text \<open>One leaf that holds \<open>ka\<close>.\<close>

definition one_leaf :: PageManager where
  "one_leaf =
     \<lparr>pages = [1 \<mapsto> Plain (meta_page 1 2 1),
               2 \<mapsto> Sorted [leaf_slot ka v1] (leaf_special 0 0)],
      next_pgid = 3, page_cap = 80\<rparr>"

text \<open>One leaf that holds \<open>ka\<close> and \<open>kb\<close>, and has no room for a third slot.\<close>

definition full_leaf :: PageManager where
  "full_leaf =
     \<lparr>pages = [1 \<mapsto> Plain (meta_page 1 2 2),
               2 \<mapsto> Sorted [leaf_slot ka v1, leaf_slot kb v2] (leaf_special 0 0)],
      next_pgid = 3, page_cap = 80\<rparr>"

text \<open>Two levels: the leaf 2 holds \<open>ka\<close>, its next leaf 3 holds \<open>kb\<close> and \<open>kc\<close>; the root 4
  has the child 2 below the separator \<open>kb\<close> and the right-most child 3.\<close>

definition two_level :: PageManager where
  "two_level =
     \<lparr>pages = [1 \<mapsto> Plain (meta_page 2 4 3),
               2 \<mapsto> Sorted [leaf_slot ka v1] (leaf_special 0 3),
               3 \<mapsto> Sorted [leaf_slot kb v2, leaf_slot kc v3] (leaf_special 2 0),
               4 \<mapsto> Sorted [inner_slot 2 kb] (le_bytes sizeof_pgid_t (3 :: pgid_t))],
      next_pgid = 5, page_cap = 80\<rparr>"

definition iter_at :: "pgid_t \<Rightarrow> nat \<Rightarrow> Iter" where
  "iter_at page_id slot_id = \<lparr>iter_meta_pgid = 1, m_page_id = page_id, m_slot_id = slot_id\<rparr>"

section \<open>Properties\<close>

lemma Create_tree1: "outcome (bnd (Create lex_compare) (\<lambda>t. ret (MetaPageID t))) pm0 = Inr 1"
  by code_simp

text \<open>
  C3. The slot codecs do not round-trip. \<open>InnerSlotSerialize\<close> copies the raw bytes of the
  child id and \<open>InnerSlotParse\<close> reads them back as decimal text with \<^verbatim>\<open>std::stoi\<close>:
  the id 5 raises \<^verbatim>\<open>std::invalid_argument\<close>, the id 49 (the character \<^verbatim>\<open>'1'\<close>) comes
  back as 1. \<open>LeafSlotSerialize\<close> writes \<^verbatim>\<open>sizeof(slot.key)\<close>, 16, as the key length,
  whatever the length of the key: the slot of the key \<^verbatim>\<open>"a"\<close> and the value \<^verbatim>\<open>"1"\<close> is
  four bytes long and parsing it raises \<^verbatim>\<open>std::out_of_range\<close>; with a 16-byte value the
  parsed key is 16 bytes long and the parsed value one byte.
\<close>

theorem slot_codecs_do_not_round_trip:
  "inner_roundtrip scratch \<lparr>next = 5, strict_upper_bound = view_of ka\<rparr> = Inl InvalidArgument
   \<and> inner_roundtrip scratch \<lparr>next = 49, strict_upper_bound = view_of ka\<rparr> = Inr (1, ka)
   \<and> leaf_roundtrip scratch \<lparr>key = key_a, value = val_1\<rparr> = Inl OutOfRange
   \<and> leaf_roundtrip scratch \<lparr>key = key_a, value = view_of v1\<rparr> = Inr (ka, [49])"
  by code_simp

text \<open>
  C10. \<open>Open\<close> returns a handle that holds the given id, for every page manager and every
  id, and leaves the page manager as it was: it reads no page. When no page has that id,
  \<open>Open\<close> succeeds all the same, and the page manager's fault is raised by the first
  operation that reads the meta page.
\<close>

theorem Open_no_validation:
  "Open Compare meta_pgid pm = (Inr (Self meta_pgid Compare), pm)
   \<and> MetaPageID (Self meta_pgid Compare) = meta_pgid
   \<and> (pages pm meta_pgid = None \<longrightarrow>
        outcome (bnd (Open Compare meta_pgid) LevelNum) pm = Inl PageFault)"
  by (simp add: Open_def ret_def MetaPageID_def Self_def outcome_def bnd_def LevelNum_def
        GetMetaPage_def GetPlainPage_def)

theorem Open_no_validation_witness:
  "pages pm0 99 = None
   \<and> Open lex_compare 99 pm0 = (Inr (Self 99 lex_compare), pm0)
   \<and> outcome (bnd (Open lex_compare 99) LevelNum) pm0 = Inl PageFault"
  using Open_no_validation [of lex_compare 99 pm0] by (simp add: pm0_def)


subsection \<open>Evaluation of \<open>Insert\<close> for every memory behind \<^verbatim>\<open>addr\<close>\<close>

lemmas io_defs = bnd_def ret_def throw_def lift_def outcome_def exec_def bindE_def

lemmas pm_defs = Allocate_def Free_def plain_bytes_def GetPlainPage_def Read_def Write_def
  sorted_body_def put_sorted_def GetSortedPage_def AllocSortedPage_def Init_def SlotNum_def
  Slot_def IsEmpty_page_def LowerBound_def UpperBound_def Find_def FindSlot_def
  IsInsertable_def InsertBeforeSlot_def DeleteSlot_def SplitInsert_def ReadSpecial_def
  WriteSpecial_def

lemmas tree_defs = GetInnerPage_def GetLeafPage_def GetMetaPage_def FreePage_def
  AllocInnerPage_def AllocLeafPage_def GetInnerSpecial_def SetInnerSpecial_def GetLeafPrev_def
  SetLeafPrev_def GetLeafNext_def SetLeafNext_def LevelNum_def UpdateLevelNum_def Root_def
  UpdateRoot_def UpdateTupleNum_def Self_def tree1_def tuple_num_field_def

lemmas codec_defs = LeafSlotParse_def InnerSlotParse_def LeafSlotKeyCompare_def
  InnerSlotKeyCompare_def compare_views_def sv_read_def substr_def memcpy_def view_of_def
  stoi_def c_str_def isspace_def isdigit_def sizeof_pgid_t_def sizeof_pgoff_t_def
  sizeof_string_view_def le_bytes_def upt_rec leaf_slot_bytes_def LeafSlotSerialize_def
  LeafSlotSize_def inner_slot_bytes_def InnerSlotSerialize_def InnerSlotSize_def

lemmas layout_defs = meta_page_def leaf_slot_def leaf_special_def inner_slot_def

lemma ka_list: "ka = [97,97,97,97,97,97,97,97,97,97,97,97,97,97,97,97]"
  by code_simp
lemma kb_list: "kb = [98,98,98,98,98,98,98,98,98,98,98,98,98,98,98,98]"
  by code_simp
lemma kc_list: "kc = [99,99,99,99,99,99,99,99,99,99,99,99,99,99,99,99]"
  by code_simp
lemma v1_list: "v1 = [49,49,49,49,49,49,49,49,49,49,49,49,49,49,49,49]"
  by code_simp
lemma v2_list: "v2 = [50,50,50,50,50,50,50,50,50,50,50,50,50,50,50,50]"
  by code_simp
lemma v3_list: "v3 = [51,51,51,51,51,51,51,51,51,51,51,51,51,51,51,51]"
  by code_simp

lemmas lists = ka_list kb_list kc_list v1_list v2_list v3_list

lemma rep4: "replicate 4 x = [x, x, x, x]"
  by (simp add: eval_nat_numeral)

lemma rep8: "replicate 8 x = [x, x, x, x, x, x, x, x]"
  by (simp add: eval_nat_numeral)

lemma take1_drop: "n < length xs \<Longrightarrow> take (Suc 0) (drop n xs) = [xs ! n]"
  by (metis Cons_nth_drop_Suc take0 take_Suc_Cons)

text \<open>\<open>Create\<close> on the empty page manager leaves the new tree.\<close>

lemma pm_created_eq: "pm_created = new_tree"
  apply (rule PageManager.equality)
     apply (simp_all add: new_tree_def pm_created_def Create_def pm0_def io_defs pm_defs
       tree_defs layout_defs codec_defs Let_def)
  apply (rule ext)
  apply (simp add: eval_nat_numeral)
  done

text \<open>
  \<open>LeafSlotSerialize\<close> writes 34 bytes whatever the slot. Behind a pointer to fewer
  writable bytes, \<open>Insert\<close> returns nothing and leaves the pages as they were, on any
  tree and for any key and value.
\<close>

lemma leaf_slot_bytes_short:
  "length addr < 34 \<Longrightarrow> \<exists>e. leaf_slot_bytes addr slot = Inl e"
  by (auto simp add: leaf_slot_bytes_def LeafSlotSerialize_def LeafSlotSize_def bindE_def
        memcpy_def le_bytes_def sizeof_pgoff_t_def sizeof_string_view_def upt_rec Let_def
      split: sum.splits)

lemma Insert_short:
  assumes "length addr < 34"
  shows "outcome (Insert t addr k v) pm \<noteq> Inr b"
proof -
  obtain e where e: "leaf_slot_bytes addr \<lparr>key = k, value = v\<rparr> = Inl e"
    using leaf_slot_bytes_short [OF assms] by blast
  show ?thesis
    unfolding Insert_def bnd_def lift_def outcome_def Let_def
    by (simp add: e split: prod.splits sum.splits)
qed

lemma Insert_short_state:
  assumes "length addr < 34"
  shows "exec (Insert t addr k v) pm = pm"
proof -
  obtain e where e: "leaf_slot_bytes addr \<lparr>key = k, value = v\<rparr> = Inl e"
    using leaf_slot_bytes_short [OF assms] by blast
  show ?thesis
    unfolding Insert_def Root_def LevelNum_def GetMetaPage_def GetPlainPage_def Read_def
      plain_bytes_def bnd_def lift_def exec_def ret_def throw_def Let_def
    by (simp add: e split: prod.splits sum.splits option.splits page.splits)
qed

text \<open>Behind a pointer to 34 writable bytes or more, their content does not matter.\<close>

lemma Insert_short_key_long:
  assumes "34 \<le> length addr"
  shows "Insert tree1 addr key_a val_1 pm_created
     = (Inr True, pm_created\<lparr>pages := (pages pm_created)
          (2 \<mapsto> Sorted [[16, 0, 97, 97]] (leaf_special 0 0))\<rparr>)"
  using assms
  by (auto simp add: Insert_def Insert_root_leaf_def io_defs pm_defs tree_defs Let_def
      pm_created_eq new_tree_def layout_defs codec_defs lists key_a_def val_1_def)

lemma Insert_first_long:
  assumes "34 \<le> length addr"
  shows "Insert tree1 addr (view_of ka) (view_of v1) pm_created
     = (Inr True, pm_created\<lparr>pages := (pages pm_created)
          (2 \<mapsto> Sorted [leaf_slot ka v1] (leaf_special 0 0))\<rparr>)"
  using assms
  by (auto simp add: Insert_def Insert_root_leaf_def io_defs pm_defs tree_defs Let_def
      pm_created_eq new_tree_def layout_defs codec_defs lists)

lemma Insert_second_long:
  assumes "34 \<le> length addr"
  shows "Insert tree1 addr (view_of kb) (view_of v2) one_leaf
     = (Inr True, one_leaf\<lparr>pages := (pages one_leaf)
          (2 \<mapsto> Sorted [leaf_slot ka v1, leaf_slot kb v2] (leaf_special 0 0))\<rparr>)"
  using assms
  by (auto simp add: Insert_def Insert_root_leaf_def io_defs pm_defs tree_defs Let_def
      one_leaf_def layout_defs codec_defs lists)

lemma Insert_existing_long:
  assumes "34 \<le> length addr"
  shows "Insert tree1 addr (view_of ka) (view_of v2) one_leaf
     = (Inr True, one_leaf\<lparr>pages := (pages one_leaf)
          (2 \<mapsto> Sorted [leaf_slot ka v2, leaf_slot ka v1] (leaf_special 0 0))\<rparr>)"
  using assms
  by (auto simp add: Insert_def Insert_root_leaf_def io_defs pm_defs tree_defs Let_def
      one_leaf_def layout_defs codec_defs lists)

lemma Insert_split_long:
  assumes "34 \<le> length addr"
  shows "fst (Insert tree1 addr (view_of kc) (view_of v3) full_leaf) = Inr True
    \<and> pages (snd (Insert tree1 addr (view_of kc) (view_of v3) full_leaf)) 1
        = Some (Plain (meta_page 2 4 2))
    \<and> pages (snd (Insert tree1 addr (view_of kc) (view_of v3) full_leaf)) 2
        = Some (Sorted [leaf_slot ka v1] (leaf_special 3 0))
    \<and> pages (snd (Insert tree1 addr (view_of kc) (view_of v3) full_leaf)) 3
        = Some (Sorted [leaf_slot kb v2, leaf_slot kc v3] (leaf_special 0 2))
    \<and> pages (snd (Insert tree1 addr (view_of kc) (view_of v3) full_leaf)) 4
        = Some (Sorted [inner_slot 3 ka] (le_bytes sizeof_pgid_t (2 :: pgid_t)))"
  using assms
  apply (simp add: Insert_def Insert_root_leaf_def io_defs pm_defs tree_defs Let_def
      full_leaf_def layout_defs codec_defs lists rep4 rep8)
  apply arith
  done

lemma Insert_17_long:
  assumes "35 \<le> length addr"
  shows "Insert tree1 addr (view_of ka) (view_of (v2 @ [b])) pm_created
     = (Inr True, pm_created\<lparr>pages := (pages pm_created)
          (2 \<mapsto> Sorted [leaf_slot ka (v2 @ [addr ! 34])] (leaf_special 0 0))\<rparr>)"
  using assms
  by (auto simp add: Insert_def Insert_root_leaf_def io_defs pm_defs tree_defs Let_def
      pm_created_eq new_tree_def layout_defs codec_defs lists take1_drop)

lemma Insert_17_34:
  assumes "length addr = 34"
  shows "outcome (Insert tree1 addr (view_of ka) (view_of (v2 @ [b]))) pm_created = Inl Undefined"
  using assms
  by (simp add: Insert_def Insert_root_leaf_def io_defs pm_defs tree_defs Let_def
      pm_created_eq new_tree_def layout_defs codec_defs lists)

subsection \<open>The claims about insertion\<close>

text \<open>
  C1. What \<open>Insert\<close> stores is not what \<open>Get\<close> is to return. For every memory behind
  \<^verbatim>\<open>addr\<close>: when \<open>Insert\<close> of the key \<^verbatim>\<open>"a"\<close> with the value \<^verbatim>\<open>"1"\<close> into the new tree
  returns true, the leaf holds the four bytes 16, 0, \<^verbatim>\<open>'a'\<close>, \<^verbatim>\<open>'a'\<close>: the length field
  is \<^verbatim>\<open>sizeof(slot.key)\<close> and the second byte of the key's buffer stands where the value
  should. On that slot \<open>LeafSlotParse\<close> raises \<^verbatim>\<open>std::out_of_range\<close>, and so do the
  comparator of the leaf and the lookup \<open>FindSlot\<close> of the same key. Nor does a value
  survive a split: when \<open>Insert\<close> of \<open>kc\<close> into the full leaf returns true, the root is
  the inner page 4, and the search \<open>UpperBound\<close> for \<open>kc\<close> in it raises
  \<^verbatim>\<open>std::invalid_argument\<close>, because \<open>InnerSlotParse\<close> reads the raw child id with
  \<^verbatim>\<open>std::stoi\<close>. \<^verbatim>\<open>Get\<close> itself cannot be instantiated.
\<close>

theorem Insert_stores_slot_that_does_not_parse:
  "(outcome (Insert tree1 addr key_a val_1) pm_created = Inr True \<longrightarrow>
      pages (exec (Insert tree1 addr key_a val_1) pm_created) 2
        = Some (Sorted [[16, 0, 97, 97]] (leaf_special 0 0))
      \<and> outcome (bnd (GetLeafPage tree1 2) (\<lambda>leaf. FindSlot leaf key_a))
          (exec (Insert tree1 addr key_a val_1) pm_created) = Inl OutOfRange)
   \<and> LeafSlotParse (view_of [16, 0, 97, 97]) = Inl OutOfRange
   \<and> LeafSlotKeyCompare lex_compare (view_of [16, 0, 97, 97]) key_a = Inl OutOfRange
   \<and> (outcome (Insert tree1 addr (view_of kc) (view_of v3)) full_leaf = Inr True \<longrightarrow>
      outcome (Root tree1) (exec (Insert tree1 addr (view_of kc) (view_of v3)) full_leaf) = Inr 4
      \<and> outcome (bnd (GetInnerPage tree1 4) (\<lambda>inn. UpperBound inn (view_of kc)))
          (exec (Insert tree1 addr (view_of kc) (view_of v3)) full_leaf) = Inl InvalidArgument)"
proof (cases "34 \<le> length addr")
  case True
  define S where "S = exec (Insert tree1 addr key_a val_1) pm_created"
  define T where "T = exec (Insert tree1 addr (view_of kc) (view_of v3)) full_leaf"
  have r1: "outcome (Insert tree1 addr key_a val_1) pm_created = Inr True"
    by (simp add: outcome_def Insert_short_key_long [OF True])
  have s2: "pages S 2 = Some (Sorted [[16, 0, 97, 97]] (leaf_special 0 0))"
    by (simp add: S_def exec_def Insert_short_key_long [OF True])
  have t1: "pages T 1 = Some (Plain (meta_page 2 4 2))"
    and t4: "pages T 4 = Some (Sorted [inner_slot 3 ka] (le_bytes sizeof_pgid_t (2 :: pgid_t)))"
    using Insert_split_long [OF True] by (simp_all add: T_def exec_def)
  have a: "outcome (bnd (GetLeafPage tree1 2) (\<lambda>leaf. FindSlot leaf key_a)) S = Inl OutOfRange"
    by (simp add: s2 io_defs pm_defs tree_defs codec_defs layout_defs key_a_def lists)
  have b: "LeafSlotParse (view_of [16, 0, 97, 97]) = Inl OutOfRange"
    and b': "LeafSlotKeyCompare lex_compare (view_of [16, 0, 97, 97]) key_a = Inl OutOfRange"
    by code_simp+
  have c: "outcome (Root tree1) T = Inr 4"
    by (simp add: t1 io_defs pm_defs tree_defs codec_defs layout_defs)
  have d: "outcome (bnd (GetInnerPage tree1 4) (\<lambda>inn. UpperBound inn (view_of kc))) T
             = Inl InvalidArgument"
    by (simp add: t4 io_defs pm_defs tree_defs codec_defs layout_defs lists)
  show ?thesis
    using r1 s2 a b b' c d unfolding S_def T_def by simp
next
  case False
  then have "length addr < 34" by simp
  then have "outcome (Insert tree1 addr key_a val_1) pm_created \<noteq> Inr True"
    and "outcome (Insert tree1 addr (view_of kc) (view_of v3)) full_leaf \<noteq> Inr True"
    by (rule Insert_short)+
  moreover have "LeafSlotParse (view_of [16, 0, 97, 97]) = Inl OutOfRange"
    and "LeafSlotKeyCompare lex_compare (view_of [16, 0, 97, 97]) key_a = Inl OutOfRange"
    by code_simp+
  ultimately show ?thesis by simp
qed

text \<open>With 40 bytes behind \<^verbatim>\<open>addr\<close> both calls of \<open>Insert\<close> return true.\<close>

theorem Insert_stores_slot_that_does_not_parse_witness:
  "outcome (Insert tree1 scratch key_a val_1) pm_created = Inr True
   \<and> pages (exec (Insert tree1 scratch key_a val_1) pm_created) 2
        = Some (Sorted [[16, 0, 97, 97]] (leaf_special 0 0))
   \<and> outcome (bnd (GetLeafPage tree1 2) (\<lambda>leaf. FindSlot leaf key_a))
          (exec (Insert tree1 scratch key_a val_1) pm_created) = Inl OutOfRange
   \<and> outcome (Insert tree1 scratch (view_of kc) (view_of v3)) full_leaf = Inr True
   \<and> outcome (Root tree1) (exec (Insert tree1 scratch (view_of kc) (view_of v3)) full_leaf) = Inr 4
   \<and> outcome (bnd (GetInnerPage tree1 4) (\<lambda>inn. UpperBound inn (view_of kc)))
          (exec (Insert tree1 scratch (view_of kc) (view_of v3)) full_leaf) = Inl InvalidArgument"
proof -
  have h1: "outcome (Insert tree1 scratch key_a val_1) pm_created = Inr True"
    by code_simp
  have h2: "outcome (Insert tree1 scratch (view_of kc) (view_of v3)) full_leaf = Inr True"
    by code_simp
  show ?thesis
    using h1 h2 Insert_stores_slot_that_does_not_parse [of scratch] by simp
qed

text \<open>
  C2. \<open>Insert\<close> of a key that the tree holds is never refused. The leaf of \<open>one_leaf\<close>
  holds \<open>ka\<close>: the comparator of the leaf finds its slot equivalent to \<open>ka\<close>. For every
  memory behind \<^verbatim>\<open>addr\<close>, \<open>Insert\<close> of \<open>ka\<close> with the value \<open>v2\<close> does not return false,
  and when it returns true the leaf holds two slots of the key \<open>ka\<close>, the new one first.
\<close>

theorem Insert_existing_key_not_refused:
  "pages one_leaf 2 = Some (Sorted [leaf_slot ka v1] (leaf_special 0 0))
   \<and> LeafSlotKeyCompare lex_compare (view_of (leaf_slot ka v1)) (view_of ka) = Inr Equivalent
   \<and> outcome (Insert tree1 addr (view_of ka) (view_of v2)) one_leaf \<noteq> Inr False
   \<and> (outcome (Insert tree1 addr (view_of ka) (view_of v2)) one_leaf = Inr True \<longrightarrow>
        pages (exec (Insert tree1 addr (view_of ka) (view_of v2)) one_leaf) 2
          = Some (Sorted [leaf_slot ka v2, leaf_slot ka v1] (leaf_special 0 0)))"
proof -
  have a: "pages one_leaf 2 = Some (Sorted [leaf_slot ka v1] (leaf_special 0 0))"
    by (simp add: one_leaf_def)
  have b: "LeafSlotKeyCompare lex_compare (view_of (leaf_slot ka v1)) (view_of ka)
             = Inr Equivalent"
    by code_simp
  show ?thesis
  proof (cases "34 \<le> length addr")
    case True
    show ?thesis
      using a b by (simp add: outcome_def exec_def Insert_existing_long [OF True])
  next
    case False
    then have "length addr < 34" by simp
    then have "outcome (Insert tree1 addr (view_of ka) (view_of v2)) one_leaf \<noteq> Inr False"
      and "outcome (Insert tree1 addr (view_of ka) (view_of v2)) one_leaf \<noteq> Inr True"
      by (rule Insert_short)+
    then show ?thesis using a b by simp
  qed
qed

text \<open>With 40 bytes behind \<^verbatim>\<open>addr\<close> the call returns true.\<close>

theorem Insert_existing_key_not_refused_witness:
  "outcome (Insert tree1 scratch (view_of ka) (view_of v2)) one_leaf = Inr True
   \<and> pages (exec (Insert tree1 scratch (view_of ka) (view_of v2)) one_leaf) 2
        = Some (Sorted [leaf_slot ka v2, leaf_slot ka v1] (leaf_special 0 0))"
proof -
  have h: "outcome (Insert tree1 scratch (view_of ka) (view_of v2)) one_leaf = Inr True"
    by code_simp
  show ?thesis
    using h Insert_existing_key_not_refused [of scratch] by simp
qed

text \<open>
  C4. \<open>Insert\<close> leaves the field \<^verbatim>\<open>tuple_num\<close> of the meta page as it finds it. \<open>Create\<close>
  writes 0. For every memory behind \<^verbatim>\<open>addr\<close>: when \<open>Insert\<close> of \<open>ka\<close> into the new tree
  returns true, the leaf has one slot, the meta page is byte for byte as \<open>Create\<close> left
  it and the field is 0; when \<open>Insert\<close> of \<open>kb\<close> into the leaf that holds \<open>ka\<close>, whose
  field is 1, returns true, the leaf has two slots and the field is 1. \<^verbatim>\<open>Delete\<close> and
  \<^verbatim>\<open>TupleNum\<close> cannot be instantiated.
\<close>

theorem Insert_leaves_tuple_num_field:
  "outcome (tuple_num_field tree1) pm_created = Inr 0
   \<and> (outcome (Insert tree1 addr (view_of ka) (view_of v1)) pm_created = Inr True \<longrightarrow>
        outcome (bnd (GetLeafPage tree1 2) SlotNum)
          (exec (Insert tree1 addr (view_of ka) (view_of v1)) pm_created) = Inr 1
        \<and> pages (exec (Insert tree1 addr (view_of ka) (view_of v1)) pm_created) 1
            = pages pm_created 1
        \<and> outcome (tuple_num_field tree1)
            (exec (Insert tree1 addr (view_of ka) (view_of v1)) pm_created) = Inr 0)
   \<and> outcome (tuple_num_field tree1) one_leaf = Inr 1
   \<and> (outcome (Insert tree1 addr (view_of kb) (view_of v2)) one_leaf = Inr True \<longrightarrow>
        outcome (bnd (GetLeafPage tree1 2) SlotNum)
          (exec (Insert tree1 addr (view_of kb) (view_of v2)) one_leaf) = Inr 2
        \<and> pages (exec (Insert tree1 addr (view_of kb) (view_of v2)) one_leaf) 1
            = pages one_leaf 1
        \<and> outcome (tuple_num_field tree1)
            (exec (Insert tree1 addr (view_of kb) (view_of v2)) one_leaf) = Inr 1)"
proof -
  have a: "outcome (tuple_num_field tree1) pm_created = Inr 0"
    by code_simp
  have b: "outcome (tuple_num_field tree1) one_leaf = Inr 1"
    by code_simp
  show ?thesis
  proof (cases "34 \<le> length addr")
    case True
    define S where "S = exec (Insert tree1 addr (view_of ka) (view_of v1)) pm_created"
    define T where "T = exec (Insert tree1 addr (view_of kb) (view_of v2)) one_leaf"
    have pc: "pages pm_created 1 = Some (Plain (meta_page 1 2 0))"
      by (simp add: pm_created_eq new_tree_def)
    have s1: "pages S 1 = Some (Plain (meta_page 1 2 0))"
      and s1': "pages S 1 = pages pm_created 1"
      and s2: "pages S 2 = Some (Sorted [leaf_slot ka v1] (leaf_special 0 0))"
      by (simp_all add: S_def exec_def Insert_first_long [OF True] pc)
    have ol: "pages one_leaf 1 = Some (Plain (meta_page 1 2 1))"
      by (simp add: one_leaf_def)
    have t1: "pages T 1 = Some (Plain (meta_page 1 2 1))"
      and t1': "pages T 1 = pages one_leaf 1"
      and t2: "pages T 2 = Some (Sorted [leaf_slot ka v1, leaf_slot kb v2] (leaf_special 0 0))"
      by (simp_all add: T_def exec_def Insert_second_long [OF True] ol)
    have c: "outcome (bnd (GetLeafPage tree1 2) SlotNum) S = Inr 1"
      by (simp add: s2 io_defs pm_defs tree_defs)
    have d: "outcome (tuple_num_field tree1) S = Inr 0"
      by (simp add: s1 io_defs pm_defs tree_defs layout_defs codec_defs)
    have e: "outcome (bnd (GetLeafPage tree1 2) SlotNum) T = Inr 2"
      by (simp add: t2 io_defs pm_defs tree_defs)
    have f: "outcome (tuple_num_field tree1) T = Inr 1"
      by (simp add: t1 io_defs pm_defs tree_defs layout_defs codec_defs)
    show ?thesis
      using a b c d e f s1' t1' unfolding S_def T_def by simp
  next
    case False
    then have "length addr < 34" by simp
    then have "outcome (Insert tree1 addr (view_of ka) (view_of v1)) pm_created \<noteq> Inr True"
      and "outcome (Insert tree1 addr (view_of kb) (view_of v2)) one_leaf \<noteq> Inr True"
      by (rule Insert_short)+
    then show ?thesis using a b by simp
  qed
qed

text \<open>With 40 bytes behind \<^verbatim>\<open>addr\<close> both calls return true.\<close>

theorem Insert_leaves_tuple_num_field_witness:
  "outcome (Insert tree1 scratch (view_of ka) (view_of v1)) pm_created = Inr True
   \<and> outcome (bnd (GetLeafPage tree1 2) SlotNum)
        (exec (Insert tree1 scratch (view_of ka) (view_of v1)) pm_created) = Inr 1
   \<and> outcome (tuple_num_field tree1)
        (exec (Insert tree1 scratch (view_of ka) (view_of v1)) pm_created) = Inr 0
   \<and> outcome (Insert tree1 scratch (view_of kb) (view_of v2)) one_leaf = Inr True
   \<and> outcome (bnd (GetLeafPage tree1 2) SlotNum)
        (exec (Insert tree1 scratch (view_of kb) (view_of v2)) one_leaf) = Inr 2
   \<and> outcome (tuple_num_field tree1)
        (exec (Insert tree1 scratch (view_of kb) (view_of v2)) one_leaf) = Inr 1"
proof -
  have h1: "outcome (Insert tree1 scratch (view_of ka) (view_of v1)) pm_created = Inr True"
    by code_simp
  have h2: "outcome (Insert tree1 scratch (view_of kb) (view_of v2)) one_leaf = Inr True"
    by code_simp
  show ?thesis
    using h1 h2 Insert_leaves_tuple_num_field [of scratch] by simp
qed

text \<open>
  C7. A leaf split links the new leaf before the original one. The leaf 2 of \<open>full_leaf\<close>
  holds \<open>ka\<close> and \<open>kb\<close>, and page 3 is not allocated. For every memory behind \<^verbatim>\<open>addr\<close>:
  when \<open>Insert\<close> of \<open>kc\<close> returns true, leaf 2 keeps \<open>ka\<close> and has the previous leaf 3
  and the next leaf 0; the new leaf 3 holds the high half, \<open>kb\<close> and \<open>kc\<close>, and has the
  previous leaf 0 and the next leaf 2. The chain runs from the new leaf to the original
  one, from the greater keys to the smaller.
\<close>

theorem leaf_split_links_new_leaf_first:
  "pages full_leaf 2 = Some (Sorted [leaf_slot ka v1, leaf_slot kb v2] (leaf_special 0 0))
   \<and> pages full_leaf 3 = None
   \<and> lex_compare kb ka = Greater
   \<and> (outcome (Insert tree1 addr (view_of kc) (view_of v3)) full_leaf = Inr True \<longrightarrow>
        pages (exec (Insert tree1 addr (view_of kc) (view_of v3)) full_leaf) 2
          = Some (Sorted [leaf_slot ka v1] (leaf_special 3 0))
        \<and> pages (exec (Insert tree1 addr (view_of kc) (view_of v3)) full_leaf) 3
          = Some (Sorted [leaf_slot kb v2, leaf_slot kc v3] (leaf_special 0 2)))"
proof -
  have a: "pages full_leaf 2 = Some (Sorted [leaf_slot ka v1, leaf_slot kb v2] (leaf_special 0 0))"
    and b: "pages full_leaf 3 = None"
    by (simp_all add: full_leaf_def)
  have c: "lex_compare kb ka = Greater"
    by code_simp
  show ?thesis
  proof (cases "34 \<le> length addr")
    case True
    show ?thesis
      using a b c Insert_split_long [OF True] by (simp add: exec_def)
  next
    case False
    then have "length addr < 34" by simp
    then have "outcome (Insert tree1 addr (view_of kc) (view_of v3)) full_leaf \<noteq> Inr True"
      by (rule Insert_short)
    then show ?thesis using a b c by simp
  qed
qed

text \<open>With 40 bytes behind \<^verbatim>\<open>addr\<close> the call returns true.\<close>

theorem leaf_split_links_new_leaf_first_witness:
  "outcome (Insert tree1 scratch (view_of kc) (view_of v3)) full_leaf = Inr True
   \<and> pages (exec (Insert tree1 scratch (view_of kc) (view_of v3)) full_leaf) 2
        = Some (Sorted [leaf_slot ka v1] (leaf_special 3 0))
   \<and> pages (exec (Insert tree1 scratch (view_of kc) (view_of v3)) full_leaf) 3
        = Some (Sorted [leaf_slot kb v2, leaf_slot kc v3] (leaf_special 0 2))"
proof -
  have h: "outcome (Insert tree1 scratch (view_of kc) (view_of v3)) full_leaf = Inr True"
    by code_simp
  show ?thesis
    using h leaf_split_links_new_leaf_first [of scratch] by simp
qed

text \<open>
  C8. \<^verbatim>\<open>Update\<close> cannot be instantiated, because \<^verbatim>\<open>Delete\<close> cannot; and the \<open>Insert\<close>
  that it is to end with keeps 16 bytes of the value. For every memory behind \<^verbatim>\<open>addr\<close>
  and every 17th byte \<open>b\<close> of the value: when \<open>Insert\<close> of \<open>ka\<close> with the 17-byte value
  \<open>v2 @ [b]\<close> into the empty leaf returns true, the value in the slot is \<open>v2\<close> followed
  by the byte at offset 34 of that memory, whatever \<open>b\<close> is: \<open>LeafSlotSerialize\<close>
  copies \<^verbatim>\<open>sizeof(slot.value)\<close> bytes.
\<close>

theorem Insert_stores_16_bytes_of_value:
  "outcome (Insert tree1 addr (view_of ka) (view_of (v2 @ [b]))) pm_created = Inr True \<longrightarrow>
     pages (exec (Insert tree1 addr (view_of ka) (view_of (v2 @ [b]))) pm_created) 2
       = Some (Sorted [leaf_slot ka (v2 @ [addr ! 34])] (leaf_special 0 0))"
proof -
  consider "length addr < 34" | "length addr = 34" | "35 \<le> length addr"
    by linarith
  then show ?thesis
  proof cases
    case 1
    then have "outcome (Insert tree1 addr (view_of ka) (view_of (v2 @ [b]))) pm_created \<noteq> Inr True"
      by (rule Insert_short)
    then show ?thesis by simp
  next
    case 2
    then show ?thesis by (simp add: Insert_17_34)
  next
    case 3
    then show ?thesis by (simp add: exec_def Insert_17_long)
  qed
qed

text \<open>With 40 zero bytes behind \<^verbatim>\<open>addr\<close> and the 17th byte 50, the stored byte is 0.\<close>

theorem Insert_stores_16_bytes_of_value_witness:
  "outcome (Insert tree1 scratch (view_of ka) (view_of (v2 @ [50]))) pm_created = Inr True
   \<and> pages (exec (Insert tree1 scratch (view_of ka) (view_of (v2 @ [50]))) pm_created) 2
       = Some (Sorted [leaf_slot ka (v2 @ [0])] (leaf_special 0 0))
   \<and> leaf_slot ka (v2 @ [0]) \<noteq> leaf_slot ka (v2 @ [50])"
proof -
  have h: "outcome (Insert tree1 scratch (view_of ka) (view_of (v2 @ [50]))) pm_created = Inr True"
    by code_simp
  have n: "scratch ! 34 = 0"
    by (simp add: scratch_def)
  have d: "leaf_slot ka (v2 @ [0]) \<noteq> leaf_slot ka (v2 @ [50])"
    by (simp add: leaf_slot_def)
  show ?thesis
    using h n d Insert_stores_16_bytes_of_value [of scratch 50] by simp
qed

subsection \<open>The claims about deletion, the iterator and the life cycle\<close>

text \<open>
  C5. \<^verbatim>\<open>Delete\<close> cannot be instantiated, and the descent it is written to make raises an
  exception on a tree of two levels. In \<open>two_level\<close> the meta page gives the root 4 and
  two levels; the slot of the root is the raw child id 2 followed by the separator, on
  which \<open>InnerSlotParse\<close> raises \<^verbatim>\<open>std::invalid_argument\<close>. The search \<open>UpperBound\<close> in
  the root, with which the descent begins, raises it for every key \<open>k\<close>, held or not,
  and leaves every page as it was.
\<close>

theorem descent_throws_on_two_levels:
  "outcome (Root tree1) two_level = Inr 4
   \<and> outcome (LevelNum tree1) two_level = Inr 2
   \<and> pages two_level 4 = Some (Sorted [inner_slot 2 kb] (le_bytes sizeof_pgid_t (3 :: pgid_t)))
   \<and> InnerSlotParse (view_of (inner_slot 2 kb)) = Inl InvalidArgument
   \<and> outcome (bnd (GetInnerPage tree1 4) (\<lambda>inn. UpperBound inn k)) two_level
       = Inl InvalidArgument
   \<and> exec (bnd (GetInnerPage tree1 4) (\<lambda>inn. UpperBound inn k)) two_level = two_level"
  by (simp add: two_level_def io_defs pm_defs tree_defs codec_defs layout_defs lists)

text \<open>
  C6. An iterator does not start where it is told to, and \<open>Next\<close> passes over slot 0 of
  every leaf but the first. The constructor of \<^verbatim>\<open>Iter\<close> keeps the indeterminate values
  \<open>u\<close> of the page id and the slot index, whatever its arguments. In \<open>two_level\<close>, leaf 2
  has one slot and the next leaf 3, which has two slots and no next leaf. From (2, 0)
  \<open>Next\<close> goes to (2, 1), where there is no slot, then to (3, 1), then to (3, 2), where
  there is no slot, then to page 0: the tuple at (3, 0) is passed over. \<^verbatim>\<open>Begin\<close> and
  \<^verbatim>\<open>Cur\<close> cannot be instantiated.
\<close>

theorem Next_passes_over_slot_0:
  "m_page_id (Iter_ctor u page_id meta_pgid slot_id) = fst u
   \<and> m_slot_id (Iter_ctor u page_id meta_pgid slot_id) = snd u
   \<and> outcome (bnd (GetLeafPage tree1 2) SlotNum) two_level = Inr 1
   \<and> outcome (bnd (GetLeafPage tree1 2) GetLeafNext) two_level = Inr 3
   \<and> outcome (bnd (GetLeafPage tree1 3) SlotNum) two_level = Inr 2
   \<and> outcome (bnd (GetLeafPage tree1 3) GetLeafNext) two_level = Inr 0
   \<and> outcome (Next lex_compare (iter_at 2 0)) two_level = Inr (iter_at 2 1)
   \<and> outcome (Next lex_compare (iter_at 2 1)) two_level = Inr (iter_at 3 1)
   \<and> outcome (Next lex_compare (iter_at 3 1)) two_level = Inr (iter_at 3 2)
   \<and> outcome (Next lex_compare (iter_at 3 2)) two_level = Inr (iter_at 0 2)"
  by (simp add: Iter_ctor_def Next_def Open_def iter_at_def two_level_def io_defs pm_defs
        tree_defs codec_defs layout_defs Let_def)

text \<open>
  C9. \<open>Destroy\<close> frees the pages of a tree whose root is a leaf, and no page of a tree of
  two levels. On \<open>pm_one\<close> it returns, and the leaf 2 and the meta page 1 are free
  afterwards. On \<open>pm_split\<close> it raises \<^verbatim>\<open>std::invalid_argument\<close> when it parses the first
  slot of the root, and the meta page 1, the leaves 2 and 3 and the root 4 are all still
  allocated.
\<close>

theorem Destroy_two_level_throws:
  "outcome (Destroy fuel tree1) pm_one = Inr ()
   \<and> pages (exec (Destroy fuel tree1) pm_one) 1 = None
   \<and> pages (exec (Destroy fuel tree1) pm_one) 2 = None
   \<and> outcome (Destroy (Suc fuel) tree1) pm_split = Inl InvalidArgument
   \<and> pages (exec (Destroy (Suc fuel) tree1) pm_split) 1 \<noteq> None
   \<and> pages (exec (Destroy (Suc fuel) tree1) pm_split) 2 \<noteq> None
   \<and> pages (exec (Destroy (Suc fuel) tree1) pm_split) 3 \<noteq> None
   \<and> pages (exec (Destroy (Suc fuel) tree1) pm_split) 4 \<noteq> None"
  by code_simp

end
